theory Spec2Isabelle
  imports Main "HOL-Library.Sublist"
begin

section \<open>The store and the gateway\<close>

text \<open>
  The edge functions talk to two outside parties: the relational store (tables
  \<open>profiles\<close>, \<open>scheduled_messages\<close>, \<open>message_history\<close>) and the remote
  messaging gateway, reached with \<open>fetch\<close>. A table is a list of rows in the order
  the store scans them. Timestamps are milliseconds as \<open>int\<close>; one clock reading
  \<open>now\<close> stands for the \<open>new Date()\<close> readings of an invocation.
  Store calls do not raise (the client returns an error value, which the functions
  below do not inspect) and take effect as written, so only gateway calls raise. The
  table \<open>profiles\<close> has \<open>id\<close> as its primary key: the row of a user is found
  with \<open>map_of\<close>.
\<close>

record profile =
  instance_id :: "string option"
  whapi_token :: "string option"
  instance_status :: string
  payment_plan :: string
  trial_expires_at :: "int option"
  updated_at :: int

record scheduled_message =
  msg_id :: string
  user_id :: string
  message :: string
  media_url :: "string option"
  media_type :: "string option"
  group_ids :: "string list"
  send_at :: int
  status :: string
  msg_updated_at :: int

text \<open>A JSON body as the functions read it: an object of string fields, an array of
  such objects, or plain text. A field that is absent reads as \<open>undefined\<close>.\<close>

type_synonym obj = "(string \<times> string) list"

datatype body = Obj obj | Arr "obj list" | Text string

fun field :: "body \<Rightarrow> string \<Rightarrow> string option" where
  "field (Obj fs) k = map_of fs k"
| "field (Arr _) k = None"
| "field (Text _) k = None"

text \<open>JavaScript truthiness of a string that may be null or undefined.\<close>

fun truthy :: "string option \<Rightarrow> bool" where
  "truthy None = False"
| "truthy (Some s) = (s \<noteq> [])"

text \<open>\<open>`Bearer ${token}`\<close>: a null token is interpolated as the text null.\<close>

fun bearer :: "string option \<Rightarrow> string" where
  "bearer None = ''null''"
| "bearer (Some t) = t"

record history_row =
  h_user_id :: string
  h_scheduled_message_id :: "string option"
  h_group_id :: string
  h_message :: string
  h_media_url :: "string option"
  h_status :: string
  h_whapi_message_id :: "string option"
  h_error_message :: "body option"

text \<open>The gateway calls the functions make, one constructor per endpoint.\<close>

datatype request =
    SendText string string string "(string \<times> string) option"
  | Health string
  | GetQr string
  | DeleteChannel string string
  | ListProjects string
  | CreateChannel string string string
  | PatchSettings string string
  | PartnerInstances string
  | PartnerInstanceStatus string string
  | GateGet string string
  | GatePost string string

text \<open>\<open>fetch\<close> either rejects (a network error is raised) or resolves to a response
  with an HTTP status and a body; the body is \<open>None\<close> when reading it raises.\<close>

datatype response = Rejects | Response nat "body option"

definition ok :: "nat \<Rightarrow> bool" where
  "ok code = (200 \<le> code \<and> code \<le> 299)"

text \<open>The gateway is an arbitrary environment: its answer may depend on the request
  and on how many calls were made before it. The world holds the three tables, the
  log of what a run did (gateway calls, waits, writes of the scheduler) and the
  number of gateway calls made so far.\<close>

type_synonym gateway = "nat \<Rightarrow> request \<Rightarrow> response"

datatype event =
    Fetch request
  | Sleep nat
  | SetScheduledStatus string string
  | InsertHistory history_row

record world =
  profiles :: "(string \<times> profile) list"
  scheduled_messages :: "scheduled_message list"
  message_history :: "history_row list"
  log :: "event list"
  calls :: nat

definition fetch :: "gateway \<Rightarrow> request \<Rightarrow> world \<Rightarrow> response \<times> world" where
  "fetch gw rq w = (gw (calls w) rq, w\<lparr>log := log w @ [Fetch rq], calls := calls w + 1\<rparr>)"

definition delay :: "nat \<Rightarrow> world \<Rightarrow> world" where
  "delay ms w = w\<lparr>log := log w @ [Sleep ms]\<rparr>"

section \<open>The message scheduler (scheduled dispatch)\<close>

text \<open>The query for due messages: \<open>status = 'pending'\<close>, \<open>send_at <= now\<close>, inner join
  with the owner's profile, \<open>limit 10\<close>. The query has no \<open>order\<close> clause, so the rows
  come in the store's scan order.\<close>

definition due_rows :: "int \<Rightarrow> world \<Rightarrow> (scheduled_message \<times> profile) list" where
  "due_rows now w =
     concat (map (\<lambda>m. case map_of (profiles w) (user_id m) of
                         None \<Rightarrow> []
                       | Some p \<Rightarrow> if status m = ''pending'' \<and> send_at m \<le> now then [(m, p)] else [])
                 (scheduled_messages w))"

definition pendingMessages :: "int \<Rightarrow> world \<Rightarrow> (scheduled_message \<times> profile) list" where
  "pendingMessages now w = take 10 (due_rows now w)"

text \<open>\<open>update({status, updated_at}).eq('id', id)\<close> on \<open>scheduled_messages\<close>; the first
  update of the loop sets no \<open>updated_at\<close>.\<close>

definition set_status :: "string \<Rightarrow> string \<Rightarrow> int option \<Rightarrow> world \<Rightarrow> world" where
  "set_status i st upd w =
     w\<lparr>scheduled_messages :=
          map (\<lambda>r. if msg_id r = i
                    then r\<lparr>status := st,
                            msg_updated_at := (case upd of None \<Rightarrow> msg_updated_at r | Some t \<Rightarrow> t)\<rparr>
                    else r)
              (scheduled_messages w),
       log := log w @ [SetScheduledStatus i st]\<rparr>"

definition insert_history :: "history_row \<Rightarrow> world \<Rightarrow> world" where
  "insert_history h w =
     w\<lparr>message_history := message_history w @ [h], log := log w @ [InsertHistory h]\<rparr>"

definition send_request :: "scheduled_message \<Rightarrow> profile \<Rightarrow> string \<Rightarrow> request" where
  "send_request m p groupId =
     SendText (bearer (whapi_token p)) groupId (message m)
       (if truthy (media_url m)
        then Some (bearer (media_url m),
                   if truthy (media_type m) then bearer (media_type m) else ''image'')
        else None)"

definition sent_row :: "scheduled_message \<Rightarrow> string \<Rightarrow> body \<Rightarrow> history_row" where
  "sent_row m groupId result =
     \<lparr>h_user_id = user_id m, h_scheduled_message_id = Some (msg_id m), h_group_id = groupId,
      h_message = message m, h_media_url = media_url m, h_status = ''sent'',
      h_whapi_message_id = field result ''id'', h_error_message = None\<rparr>"

definition failed_row :: "scheduled_message \<Rightarrow> string \<Rightarrow> body \<Rightarrow> history_row" where
  "failed_row m groupId err =
     \<lparr>h_user_id = user_id m, h_scheduled_message_id = Some (msg_id m), h_group_id = groupId,
      h_message = message m, h_media_url = media_url m, h_status = ''failed'',
      h_whapi_message_id = None, h_error_message = Some err\<rparr>"

text \<open>One turn of the loop over \<open>message.group_ids\<close>, with its \<open>try\<close>/\<open>catch\<close>. The state
  is the world and the two counters. When \<open>fetch\<close> rejects, or the body of an ok
  response cannot be read, the handler only counts a failure. When the body of an
  error response cannot be read, \<open>failCount\<close> was already incremented before the
  handler increments it again.\<close>

fun send_to_group ::
  "gateway \<Rightarrow> scheduled_message \<Rightarrow> profile \<Rightarrow> world \<times> nat \<times> nat \<Rightarrow> string \<Rightarrow> world \<times> nat \<times> nat"
where
  "send_to_group gw m p (w, successCount, failCount) groupId =
     (case fetch gw (send_request m p groupId) w of
        (Rejects, w1) \<Rightarrow> (w1, successCount, failCount + 1)
      | (Response code b, w1) \<Rightarrow>
          if ok code then
            (case b of
               None \<Rightarrow> (w1, successCount, failCount + 1)
             | Some result \<Rightarrow>
                 (insert_history (sent_row m groupId result) w1, successCount + 1, failCount))
          else
            (case b of
               None \<Rightarrow> (w1, successCount, failCount + 2)
             | Some err \<Rightarrow>
                 (insert_history (failed_row m groupId err) w1, successCount, failCount + 1)))"

definition finalStatus :: "nat \<Rightarrow> nat \<Rightarrow> string" where
  "finalStatus successCount failCount =
     (if successCount > 0 then (if failCount > 0 then ''partial'' else ''sent'') else ''failed'')"

text \<open>The body of the loop over the selected rows. The profile is the one joined
  into the row by the query; it is not read again. The \<open>catch\<close> around this body
  (which would write \<open>failed\<close>) is not reached: store calls do not raise, the errors
  of the sends are caught inside the inner loop, and the joined profile and
  \<open>group_ids\<close> are never null.\<close>

definition process_message ::
  "gateway \<Rightarrow> int \<Rightarrow> world \<Rightarrow> scheduled_message \<times> profile \<Rightarrow> world"
where
  "process_message gw now w mp =
     (let m = fst mp; p = snd mp;
          w1 = set_status (msg_id m) ''sending'' None w
      in if \<not> truthy (whapi_token p) \<or> instance_status p \<noteq> ''connected''
         then set_status (msg_id m) ''failed'' (Some now) w1
         else (case foldl (send_to_group gw m p) (w1, 0, 0) (group_ids m) of
                 (w2, successCount, failCount) \<Rightarrow>
                   set_status (msg_id m) (finalStatus successCount failCount) (Some now) w2))"

definition process_batch ::
  "gateway \<Rightarrow> int \<Rightarrow> (scheduled_message \<times> profile) list \<Rightarrow> world \<Rightarrow> world"
where
  "process_batch gw now rows w = foldl (process_message gw now) w rows"

datatype scheduler_response = NoPendingMessages | Processed nat

definition run_scheduler :: "gateway \<Rightarrow> int \<Rightarrow> world \<Rightarrow> scheduler_response \<times> world" where
  "run_scheduler gw now w =
     (let rows = pendingMessages now w
      in if rows = [] then (NoPendingMessages, w)
         else (Processed (length rows), process_batch gw now rows w))"

subsection \<open>Observations on a run of the scheduler\<close>

text \<open>
  What one send attempt amounts to, read off the gateway's answer. An attempt
  succeeded when the branch that increments \<open>successCount\<close> ran: an ok response whose
  body could be read. \<open>fail_count\<close> is what the attempt adds to \<open>failCount\<close>, and
  \<open>attempt_rows\<close> the rows it inserts into \<open>message_history\<close>.
\<close>

fun succeeded :: "response \<Rightarrow> bool" where
  "succeeded Rejects = False"
| "succeeded (Response code None) = False"
| "succeeded (Response code (Some b)) = ok code"

fun fail_count :: "response \<Rightarrow> nat" where
  "fail_count Rejects = 1"
| "fail_count (Response code None) = (if ok code then 1 else 2)"
| "fail_count (Response code (Some b)) = (if ok code then 0 else 1)"

fun attempt_rows :: "scheduled_message \<Rightarrow> string \<Rightarrow> response \<Rightarrow> history_row list" where
  "attempt_rows m g Rejects = []"
| "attempt_rows m g (Response code None) = []"
| "attempt_rows m g (Response code (Some b)) = [if ok code then sent_row m g b else failed_row m g b]"

definition attempt_events :: "scheduled_message \<Rightarrow> profile \<Rightarrow> string \<Rightarrow> response \<Rightarrow> event list" where
  "attempt_events m p g r = Fetch (send_request m p g) # map InsertHistory (attempt_rows m g r)"

text \<open>The answers of the gateway to the sends of one message, the events the loop
  appends to the log and the rows it inserts, when the call counter is \<open>c\<close> at the
  start of the loop.\<close>

fun outcomes :: "gateway \<Rightarrow> scheduled_message \<Rightarrow> profile \<Rightarrow> nat \<Rightarrow> string list \<Rightarrow> response list" where
  "outcomes gw m p c [] = []"
| "outcomes gw m p c (g # gs) = gw c (send_request m p g) # outcomes gw m p (Suc c) gs"

fun loop_events :: "gateway \<Rightarrow> scheduled_message \<Rightarrow> profile \<Rightarrow> nat \<Rightarrow> string list \<Rightarrow> event list" where
  "loop_events gw m p c [] = []"
| "loop_events gw m p c (g # gs) =
     attempt_events m p g (gw c (send_request m p g)) @ loop_events gw m p (Suc c) gs"

fun loop_rows :: "gateway \<Rightarrow> scheduled_message \<Rightarrow> profile \<Rightarrow> nat \<Rightarrow> string list \<Rightarrow> history_row list" where
  "loop_rows gw m p c [] = []"
| "loop_rows gw m p c (g # gs) =
     attempt_rows m g (gw c (send_request m p g)) @ loop_rows gw m p (Suc c) gs"

text \<open>Projections of a log: the gateway calls, the status writes to
  \<open>scheduled_messages\<close>, and the ids marked \<open>sending\<close>, each in order.\<close>

fun fetches :: "event list \<Rightarrow> request list" where
  "fetches [] = []"
| "fetches (Fetch rq # es) = rq # fetches es"
| "fetches (e # es) = fetches es"

fun status_writes :: "event list \<Rightarrow> (string \<times> string) list" where
  "status_writes [] = []"
| "status_writes (SetScheduledStatus i st # es) = (i, st) # status_writes es"
| "status_writes (e # es) = status_writes es"

definition sending_marks :: "event list \<Rightarrow> string list" where
  "sending_marks es = map fst (filter (\<lambda>x. snd x = ''sending'') (status_writes es))"

text \<open>The test the pass makes on the joined profile, the status the counters of a
  loop roll up to, and the events one turn of the pass appends to the log.\<close>

definition connected_profile :: "profile \<Rightarrow> bool" where
  "connected_profile p = (truthy (whapi_token p) \<and> instance_status p = ''connected'')"

definition rollup :: "response list \<Rightarrow> string" where
  "rollup outs = finalStatus (length (filter succeeded outs)) (sum_list (map fail_count outs))"

definition process_events :: "gateway \<Rightarrow> nat \<Rightarrow> scheduled_message \<times> profile \<Rightarrow> event list" where
  "process_events gw c mp =
     (let m = fst mp; p = snd mp in
      SetScheduledStatus (msg_id m) ''sending'' #
      (if connected_profile p
       then loop_events gw m p c (group_ids m) @
            [SetScheduledStatus (msg_id m) (rollup (outcomes gw m p c (group_ids m)))]
       else [SetScheduledStatus (msg_id m) ''failed'']))"

subsection \<open>Example inputs for the scheduler\<close>

text \<open>A connected user with one pending message for three groups, due at 50; a
  gateway that accepts every send, and one whose second call rejects.\<close>

definition demo_profile :: profile where
  "demo_profile = \<lparr>instance_id = Some ''chan1'', whapi_token = Some ''tok1'',
     instance_status = ''connected'', payment_plan = ''trial'',
     trial_expires_at = Some 1000, updated_at = 0\<rparr>"

definition demo_message :: scheduled_message where
  "demo_message = \<lparr>msg_id = ''m1'', user_id = ''u1'', message = ''hello'',
     media_url = None, media_type = None, group_ids = [''g1'', ''g2'', ''g3''],
     send_at = 50, status = ''pending'', msg_updated_at = 0\<rparr>"

definition demo_world :: world where
  "demo_world = \<lparr>profiles = [(''u1'', demo_profile)], scheduled_messages = [demo_message],
     message_history = [], log = [], calls = 0\<rparr>"

definition gw_accepts :: gateway where
  "gw_accepts n rq = Response 200 (Some (Obj [(''id'', ''wamid'')]))"

definition gw_second_rejects :: gateway where
  "gw_second_rejects n rq = (if n = 1 then Rejects else Response 200 (Some (Obj [(''id'', ''wamid'')])))"

text \<open>A table that holds a message due at 50 before a message due at 20; a table whose
  row was already marked \<open>sending\<close>; two passes run one after the other on the rows
  both selected from the first table; a message without recipients.\<close>

definition backlog_world :: world where
  "backlog_world = \<lparr>profiles = [(''u1'', demo_profile)],
     scheduled_messages = [demo_message, demo_message\<lparr>msg_id := ''m2'', send_at := 20\<rparr>],
     message_history = [], log = [], calls = 0\<rparr>"

definition claimed_world :: world where
  "claimed_world = demo_world\<lparr>scheduled_messages := [demo_message\<lparr>status := ''sending''\<rparr>]\<rparr>"

definition first_pass :: world where
  "first_pass = process_batch gw_accepts 100 (pendingMessages 100 demo_world) demo_world"

definition second_pass :: world where
  "second_pass = process_batch gw_accepts 100 (pendingMessages 100 demo_world) first_pass"


section \<open>The connection functions\<close>

text \<open>
  The errors a function raises: a \<open>fetch\<close> that rejects, a body that cannot be read,
  a method call on a value that has no such method, and the two errors the connect
  action throws itself (\<open>No WHAPI project available\<close>; \<open>Failed to create channel\<close>
  with the text of the response).
\<close>

datatype error =
    FetchRejected
  | BodyUnreadable
  | NotAFunction
  | NoProjectAvailable
  | CreateChannelFailed body

text \<open>
  The response of an edge function: the HTTP status and the fields of the JSON object
  it returns; \<open>ErrorMessage e\<close> is \<open>error.message\<close> of a caught error. A handler that
  raises is \<open>Inl\<close> of the error; the entry point turns it into a response. The table
  \<open>profiles\<close> has \<open>id\<close> as its primary key, so a row is looked up by \<open>map_of\<close>.
\<close>

datatype val = B bool | S string | N int | Null | ErrorMessage error

type_synonym http_response = "nat \<times> (string \<times> val) list"

type_synonym handler_result = "error + http_response"

definition opt_field :: "string \<Rightarrow> string option \<Rightarrow> (string \<times> val) list" where
  "opt_field k v = (case v of None \<Rightarrow> [] | Some s \<Rightarrow> [(k, S s)])"

definition update_profile :: "string \<Rightarrow> (profile \<Rightarrow> profile) \<Rightarrow> world \<Rightarrow> world" where
  "update_profile uid f w =
     w\<lparr>profiles := map (\<lambda>kp. if fst kp = uid then (fst kp, f (snd kp)) else kp) (profiles w)\<rparr>"

definition update_profiles_by_instance :: "string \<Rightarrow> (profile \<Rightarrow> profile) \<Rightarrow> world \<Rightarrow> world" where
  "update_profiles_by_instance i f w =
     w\<lparr>profiles := map (\<lambda>kp. if instance_id (snd kp) = Some i then (fst kp, f (snd kp)) else kp)
                        (profiles w)\<rparr>"

text \<open>The status write shared by the polling path and the webhook path:
  \<open>update({instance_status: newStatus, updated_at: new Date().toISOString()})\<close>.\<close>

definition write_status :: "string \<Rightarrow> int \<Rightarrow> profile \<Rightarrow> profile" where
  "write_status newStatus now p = p\<lparr>instance_status := newStatus, updated_at := now\<rparr>"

text \<open>The reset written by disconnect and by the clean-up of the status check.\<close>

definition reset_instance :: "int \<Rightarrow> profile \<Rightarrow> profile" where
  "reset_instance now p =
     p\<lparr>instance_id := None, whapi_token := None, instance_status := ''disconnected'',
       updated_at := now\<rparr>"

subsection \<open>The webhook receiver (whapi-webhook-simple)\<close>

record webhook =
  wh_event :: "string option"
  wh_data :: "obj option"

definition data_field :: "webhook \<Rightarrow> string \<Rightarrow> string option" where
  "data_field wh k = (case wh_data wh of None \<Rightarrow> None | Some d \<Rightarrow> map_of d k)"

definition webhook_newStatus :: "string option \<Rightarrow> string" where
  "webhook_newStatus st =
     (if st = Some ''authenticated'' \<or> st = Some ''ready'' then ''connected''
      else if st = Some ''qr'' \<or> st = Some ''unauthorized'' then ''unauthorized''
      else ''disconnected'')"

text \<open>The request body is \<open>None\<close> when \<open>req.json()\<close> raises.\<close>

definition webhook_simple :: "int \<Rightarrow> webhook option \<Rightarrow> world \<Rightarrow> http_response \<times> world" where
  "webhook_simple now req w =
     (case req of
        None \<Rightarrow> ((500, [(''error'', ErrorMessage BodyUnreadable)]), w)
      | Some wh \<Rightarrow>
          ((200, [(''success'', B True)]),
           (if wh_event wh = Some ''channel'' \<and> truthy (data_field wh ''id'')
            then (let i = bearer (data_field wh ''id'') in
                  if filter (\<lambda>kp. instance_id (snd kp) = Some i) (profiles w) \<noteq> []
                  then update_profiles_by_instance i
                         (write_status (webhook_newStatus (data_field wh ''status'')) now) w
                  else w)
            else w)))"

subsection \<open>The status action (whapi-simple, handleStatus)\<close>

definition handleStatus_connected :: "string option \<Rightarrow> bool" where
  "handleStatus_connected st = (st = Some ''authenticated'' \<or> st = Some ''ready'')"

definition handleStatus_newStatus :: "string option \<Rightarrow> string" where
  "handleStatus_newStatus st =
     (if handleStatus_connected st then ''connected''
      else if st = Some ''qr'' \<or> st = Some ''unauthorized'' then ''unauthorized''
      else ''disconnected'')"

definition isPaid :: "profile \<Rightarrow> bool" where
  "isPaid p = (payment_plan p = ''monthly'' \<or> payment_plan p = ''yearly'')"

text \<open>\<open>profile.trial_expires_at && new Date(profile.trial_expires_at) < now\<close>, as a
  truth value.\<close>

definition trialExpired :: "int \<Rightarrow> profile \<Rightarrow> bool" where
  "trialExpired now p = (case trial_expires_at p of None \<Rightarrow> False | Some t \<Rightarrow> t < now)"

definition status_response :: "int \<Rightarrow> profile \<Rightarrow> string option \<Rightarrow> http_response" where
  "status_response now p st =
     (200, [(''connected'', B (handleStatus_connected st))] @ opt_field ''status'' st @
           [(''message'', S (if handleStatus_connected st then ''WhatsApp connected''
                             else ''WhatsApp not connected'')),
            (''trial_expired'',
               (case trial_expires_at p of
                  None \<Rightarrow> Null
                | Some t \<Rightarrow> B (trialExpired now p \<and> \<not> isPaid p))),
            (''trial_expires_at'', (case trial_expires_at p of None \<Rightarrow> Null | Some t \<Rightarrow> N t)),
            (''payment_plan'', S (payment_plan p))])"

definition handleStatus :: "gateway \<Rightarrow> int \<Rightarrow> string \<Rightarrow> world \<Rightarrow> handler_result \<times> world" where
  "handleStatus gw now uid w =
     (case map_of (profiles w) uid of
        None \<Rightarrow>
          (Inr (200, [(''connected'', B False), (''status'', S ''no_instance''),
                      (''message'', S ''No WhatsApp instance found'')]), w)
      | Some p \<Rightarrow>
          if \<not> truthy (whapi_token p)
          then (Inr (200, [(''connected'', B False), (''status'', S ''no_instance''),
                           (''message'', S ''No WhatsApp instance found'')]), w)
          else
            (case fetch gw (Health (bearer (whapi_token p))) w of
               (Rejects, w1) \<Rightarrow> (Inl FetchRejected, w1)
             | (Response code b, w1) \<Rightarrow>
                 if \<not> ok code
                 then (Inr (200, [(''connected'', B False), (''status'', S ''error''),
                                  (''message'', S ''Failed to check status'')]), w1)
                 else
                   (case b of
                      None \<Rightarrow> (Inl BodyUnreadable, w1)
                    | Some health \<Rightarrow>
                        (let st = field health ''status'';
                             newStatus = handleStatus_newStatus st;
                             w2 = (if newStatus \<noteq> instance_status p
                                   then update_profile uid (write_status newStatus now) w1
                                   else w1)
                         in (Inr (status_response now p st), w2)))))"

subsection \<open>The status check (whapi-check-status)\<close>

definition isConnected :: "string option \<Rightarrow> bool" where
  "isConnected st = (st = Some ''active'' \<or> st = Some ''connected'')"







subsection \<open>The disconnect action (whapi-simple, handleDisconnect)\<close>

text \<open>The deletion at the gateway is inside \<open>try\<close>/\<open>catch\<close> and its response is not
  inspected: whatever the gateway does, only the call is recorded.\<close>

definition handleDisconnect ::
  "gateway \<Rightarrow> int \<Rightarrow> string \<Rightarrow> string \<Rightarrow> world \<Rightarrow> handler_result \<times> world"
where
  "handleDisconnect gw now partnerToken uid w =
     (let w1 = (case map_of (profiles w) uid of
                  None \<Rightarrow> w
                | Some p \<Rightarrow>
                    if truthy (instance_id p)
                    then snd (fetch gw (DeleteChannel partnerToken (bearer (instance_id p))) w)
                    else w)
      in (Inr (200, [(''success'', B True), (''message'', S ''WhatsApp disconnected'')]),
          update_profile uid (reset_instance now) w1))"

subsection \<open>The connect action (whapi-simple, handleConnect)\<close>

text \<open>The environment variables of the function.\<close>

record env =
  partnerToken :: string
  project_id :: "string option"
  supabaseUrl :: string

text \<open>A value read from a JSON body may be undefined; in a template string it is
  interpolated as the text undefined.\<close>

fun interp :: "string option \<Rightarrow> string" where
  "interp None = ''undefined''"
| "interp (Some t) = t"

text \<open>What a step inside a handler does next: raise, return a response, or go on with
  the code that follows.\<close>

datatype flow = Raise error | Reply http_response | Fallthrough

text \<open>\<open>qrData.qr || qrData.qrCode || qrData.image || qrData.base64\<close>\<close>

definition qr_fields :: "body \<Rightarrow> string option" where
  "qr_fields qrData =
     (if truthy (field qrData ''qr'') then field qrData ''qr''
      else if truthy (field qrData ''qrCode'') then field qrData ''qrCode''
      else if truthy (field qrData ''image'') then field qrData ''image''
      else field qrData ''base64'')"

definition data_uri :: "string \<Rightarrow> string" where
  "data_uri qrCode =
     (if prefix ''data:image/'' qrCode then qrCode else ''data:image/png;base64,'' @ qrCode)"

definition qr_reply :: "string \<Rightarrow> string \<Rightarrow> http_response" where
  "qr_reply msg qrCode = (200, [(''success'', B True), (''qr_code'', S qrCode), (''message'', S msg)])"

definition created_reply :: "string option \<Rightarrow> http_response" where
  "created_reply cid =
     (200, [(''success'', B True),
            (''message'', S ''Instance created. Please try getting QR code in a moment.'')] @
           opt_field ''instance_id'' cid)"

definition already_connected_reply :: http_response where
  "already_connected_reply =
     (200, [(''success'', B True), (''already_connected'', B True),
            (''message'', S ''WhatsApp already connected!'')])"

text \<open>The request for the pairing code, made once the health status is \<open>qr\<close> or
  \<open>unauthorized\<close>. No \<open>try\<close> surrounds it: a rejected \<open>fetch\<close> or an unreadable body
  raises out of the handler.\<close>

definition fetch_qr ::
  "gateway \<Rightarrow> int \<Rightarrow> string \<Rightarrow> string \<Rightarrow> string \<Rightarrow> world \<Rightarrow> flow \<times> world"
where
  "fetch_qr gw now uid token msg w =
     (case fetch gw (GetQr token) w of
        (Rejects, w1) \<Rightarrow> (Raise FetchRejected, w1)
      | (Response code b, w1) \<Rightarrow>
          if ok code
          then (case b of
                  None \<Rightarrow> (Raise BodyUnreadable, w1)
                | Some qrData \<Rightarrow>
                    if truthy (qr_fields qrData)
                    then (Reply (qr_reply msg (data_uri (interp (qr_fields qrData)))),
                          update_profile uid (write_status ''unauthorized'' now) w1)
                    else (Fallthrough, w1))
          else (Fallthrough, w1))"

text \<open>One turn of the loop \<open>while (attempts < 8)\<close>, up to \<open>attempts++\<close>.\<close>

definition poll_once ::
  "gateway \<Rightarrow> int \<Rightarrow> string \<Rightarrow> string option \<Rightarrow> world \<Rightarrow> flow \<times> world"
where
  "poll_once gw now uid token w =
     (case fetch gw (Health (interp token)) w of
        (Rejects, w1) \<Rightarrow> (Raise FetchRejected, w1)
      | (Response code b, w1) \<Rightarrow>
          if ok code
          then (case b of
                  None \<Rightarrow> (Raise BodyUnreadable, w1)
                | Some health \<Rightarrow>
                    if field health ''status'' = Some ''qr'' \<or>
                       field health ''status'' = Some ''unauthorized''
                    then fetch_qr gw now uid (interp token)
                           ''New instance created! Scan QR code with WhatsApp'' w1
                    else (Fallthrough, w1))
          else (Fallthrough, w1))"

function poll_qr ::
  "gateway \<Rightarrow> int \<Rightarrow> string \<Rightarrow> string option \<Rightarrow> string option \<Rightarrow> nat \<Rightarrow> world
     \<Rightarrow> handler_result \<times> world"
where
  "poll_qr gw now uid token cid attempts w =
     (if attempts < 8
      then (case poll_once gw now uid token w of
              (Raise e, w1) \<Rightarrow> (Inl e, w1)
            | (Reply r, w1) \<Rightarrow> (Inr r, w1)
            | (Fallthrough, w1) \<Rightarrow> poll_qr gw now uid token cid (attempts + 1) (delay 2000 w1))
      else (Inr (created_reply cid), w))"
  by pat_completeness auto
termination
  by (relation "measure (\<lambda>(gw, now, uid, token, cid, attempts, w). 8 - attempts)") auto

declare poll_qr.simps [simp del]

text \<open>\<open>WHAPI_PROJECT_ID\<close>, or the first project of the partner account.\<close>

definition resolve_project ::
  "gateway \<Rightarrow> env \<Rightarrow> world \<Rightarrow> (error + string option) \<times> world"
where
  "resolve_project gw e w =
     (if truthy (project_id e) then (Inr (project_id e), w)
      else (case fetch gw (ListProjects (partnerToken e)) w of
              (Rejects, w1) \<Rightarrow> (Inl FetchRejected, w1)
            | (Response code b, w1) \<Rightarrow>
                if ok code
                then (case b of
                        None \<Rightarrow> (Inl BodyUnreadable, w1)
                      | Some (Arr []) \<Rightarrow> (Inr (project_id e), w1)
                      | Some (Arr (x # xs)) \<Rightarrow> (Inr (map_of x ''id''), w1)
                      | Some (Obj x) \<Rightarrow> (Inr (project_id e), w1)
                      | Some (Text x) \<Rightarrow> (Inr (project_id e), w1))
                else (Inr (project_id e), w1)))"

definition save_channel :: "string option \<Rightarrow> string option \<Rightarrow> int \<Rightarrow> profile \<Rightarrow> profile" where
  "save_channel cid token now p =
     p\<lparr>instance_id := (case cid of None \<Rightarrow> instance_id p | Some c \<Rightarrow> Some c),
       whapi_token := (case token of None \<Rightarrow> whapi_token p | Some t \<Rightarrow> Some t),
       instance_status := ''initializing'', updated_at := now\<rparr>"

text \<open>What follows a created channel: the webhook set-up (inside \<open>try\<close>/\<open>catch\<close>, its
  response not inspected), the row saved as \<open>initializing\<close>, a wait of 3000 ms and the
  polling loop.\<close>

definition start_polling ::
  "gateway \<Rightarrow> int \<Rightarrow> env \<Rightarrow> string \<Rightarrow> body \<Rightarrow> world \<Rightarrow> handler_result \<times> world"
where
  "start_polling gw now e uid channel w =
     (let token = field channel ''token'';
          cid = field channel ''id'';
          w3 = snd (fetch gw (PatchSettings (interp token)
                 (supabaseUrl e @ ''/functions/v1/whapi-webhook-simple'')) w);
          w4 = update_profile uid (save_channel cid token now) w3;
          w5 = delay 3000 w4
      in poll_qr gw now uid token cid 0 w5)"

text \<open>\<open>`reecher_${userId.substring(0, 8)}`\<close>\<close>

definition channel_name :: "string \<Rightarrow> string" where
  "channel_name uid = ''reecher_'' @ take 8 uid"

text \<open>The code from \<open>Create new instance\<close> on. The deletion of the old channel is
  inside \<open>try\<close>/\<open>catch\<close>, and its response is not inspected.\<close>

definition create_instance ::
  "gateway \<Rightarrow> int \<Rightarrow> env \<Rightarrow> string \<Rightarrow> profile option \<Rightarrow> world \<Rightarrow> handler_result \<times> world"
where
  "create_instance gw now e uid profile w =
     (let w0 = (case profile of
                  None \<Rightarrow> w
                | Some p \<Rightarrow>
                    if truthy (instance_id p)
                    then snd (fetch gw (DeleteChannel (partnerToken e) (bearer (instance_id p))) w)
                    else w)
      in case resolve_project gw e w0 of
           (Inl err, w1) \<Rightarrow> (Inl err, w1)
         | (Inr projectId, w1) \<Rightarrow>
             if \<not> truthy projectId then (Inl NoProjectAvailable, w1)
             else
               (case fetch gw (CreateChannel (partnerToken e) (channel_name uid)
                                 (interp projectId)) w1 of
                  (Rejects, w2) \<Rightarrow> (Inl FetchRejected, w2)
                | (Response code b, w2) \<Rightarrow>
                    if \<not> ok code
                    then (case b of
                            None \<Rightarrow> (Inl BodyUnreadable, w2)
                          | Some err \<Rightarrow> (Inl (CreateChannelFailed err), w2))
                    else (case b of
                            None \<Rightarrow> (Inl BodyUnreadable, w2)
                          | Some channel \<Rightarrow> start_polling gw now e uid channel w2)))"

definition handleConnect ::
  "gateway \<Rightarrow> int \<Rightarrow> env \<Rightarrow> string \<Rightarrow> world \<Rightarrow> handler_result \<times> world"
where
  "handleConnect gw now e uid w =
     (case map_of (profiles w) uid of
        None \<Rightarrow> create_instance gw now e uid None w
      | Some p \<Rightarrow>
          if truthy (whapi_token p)
          then (case fetch gw (Health (bearer (whapi_token p))) w of
                  (Rejects, w1) \<Rightarrow> (Inl FetchRejected, w1)
                | (Response code b, w1) \<Rightarrow>
                    if ok code
                    then (case b of
                            None \<Rightarrow> (Inl BodyUnreadable, w1)
                          | Some health \<Rightarrow>
                              if field health ''status'' = Some ''authenticated'' \<or>
                                 field health ''status'' = Some ''ready''
                              then (Inr already_connected_reply,
                                    update_profile uid (write_status ''connected'' now) w1)
                              else if field health ''status'' = Some ''qr'' \<or>
                                      field health ''status'' = Some ''unauthorized''
                              then (case fetch_qr gw now uid (bearer (whapi_token p))
                                           ''Scan QR code with WhatsApp'' w1 of
                                      (Raise err, w2) \<Rightarrow> (Inl err, w2)
                                    | (Reply r, w2) \<Rightarrow> (Inr r, w2)
                                    | (Fallthrough, w2) \<Rightarrow> create_instance gw now e uid (Some p) w2)
                              else create_instance gw now e uid (Some p) w1)
                    else create_instance gw now e uid (Some p) w1)
          else create_instance gw now e uid (Some p) w)"

subsection \<open>The entry point of whapi-simple\<close>

record request_body =
  userId :: "string option"
  action :: "string option"

definition new_profile :: "int \<Rightarrow> profile" where
  "new_profile now =
     \<lparr>instance_id = None, whapi_token = None, instance_status = ''disconnected'',
      payment_plan = ''trial'', trial_expires_at = Some (now + 3 * 24 * 60 * 60 * 1000),
      updated_at = now\<rparr>"

definition ensure_profile :: "int \<Rightarrow> string \<Rightarrow> world \<Rightarrow> world" where
  "ensure_profile now uid w =
     (case map_of (profiles w) uid of
        None \<Rightarrow> w\<lparr>profiles := profiles w @ [(uid, new_profile now)]\<rparr>
      | Some p \<Rightarrow> w)"

definition basic_action :: "string option \<Rightarrow> bool" where
  "basic_action a = (a = Some ''connect'' \<or> a = Some ''status'' \<or> a = Some ''disconnect'')"

text \<open>The check made for the other actions, on the profile read before it was
  created: \<open>trialExpired && !isPaid\<close>.\<close>

definition trial_gate :: "int \<Rightarrow> profile option \<Rightarrow> string option \<Rightarrow> bool" where
  "trial_gate now profile a =
     (\<not> basic_action a \<and>
      (case profile of None \<Rightarrow> False | Some p \<Rightarrow> trialExpired now p \<and> \<not> isPaid p))"

definition trial_expired_reply :: http_response where
  "trial_expired_reply =
     (403, [(''error'', S ''Trial expired''),
            (''message'', S ''Please upgrade to continue using WhatsApp features'')])"

text \<open>The handlers of \<open>sync-groups\<close>, \<open>send-message\<close>, \<open>schedule-message\<close> and
  \<open>get-messages\<close> are a parameter \<open>other\<close>: what is proved holds whatever they do.\<close>

type_synonym other_handlers = "string \<Rightarrow> string \<Rightarrow> world \<Rightarrow> handler_result \<times> world"

definition dispatch ::
  "gateway \<Rightarrow> int \<Rightarrow> env \<Rightarrow> other_handlers \<Rightarrow> string option \<Rightarrow> string \<Rightarrow> world
     \<Rightarrow> handler_result \<times> world"
where
  "dispatch gw now e other a uid w =
     (if a = Some ''status'' then handleStatus gw now uid w
      else if a = Some ''disconnect'' then handleDisconnect gw now (partnerToken e) uid w
      else if a = Some ''sync-groups'' \<or> a = Some ''send-message'' \<or>
              a = Some ''schedule-message'' \<or> a = Some ''get-messages''
      then other (interp a) uid w
      else handleConnect gw now e uid w)"

definition serve ::
  "gateway \<Rightarrow> int \<Rightarrow> env \<Rightarrow> other_handlers \<Rightarrow> request_body option \<Rightarrow> world
     \<Rightarrow> http_response \<times> world"
where
  "serve gw now e other req w =
     (case req of
        None \<Rightarrow> ((500, [(''error'', ErrorMessage BodyUnreadable)]), w)
      | Some rb \<Rightarrow>
          if \<not> truthy (userId rb) then ((400, [(''error'', S ''User ID required'')]), w)
          else
            (let uid = bearer (userId rb);
                 profile = map_of (profiles w) uid;
                 w1 = ensure_profile now uid w
             in if trial_gate now profile (action rb) then (trial_expired_reply, w1)
                else (case dispatch gw now e other (action rb) uid w1 of
                        (Inl err, w2) \<Rightarrow> ((500, [(''error'', ErrorMessage err)]), w2)
                      | (Inr r, w2) \<Rightarrow> (r, w2))))"

subsection \<open>Status writes to one connection record\<close>

text \<open>
  The polling path (handleStatus) and the webhook path write the same two columns of
  the row: the mapped status and \<open>updated_at\<close>, the writer's clock reading. The store
  applies the writes one after the other, in the order they arrive; no writer reads
  \<open>updated_at\<close> before writing. A write is its source, the remote status it maps and
  the timestamp it carries.
\<close>

datatype write_source = PollWrite | WebhookWrite

type_synonym status_write = "write_source \<times> string option \<times> int"

definition carried :: "status_write \<Rightarrow> string" where
  "carried x = (case fst x of
                  PollWrite \<Rightarrow> handleStatus_newStatus (fst (snd x))
                | WebhookWrite \<Rightarrow> webhook_newStatus (fst (snd x)))"

definition stamp :: "status_write \<Rightarrow> int" where
  "stamp x = snd (snd x)"

definition apply_write :: "status_write \<Rightarrow> profile \<Rightarrow> profile" where
  "apply_write x p = write_status (carried x) (stamp x) p"



subsection \<open>Example inputs\<close>

definition demo_env :: env where
  "demo_env = \<lparr>partnerToken = ''partner'', project_id = Some ''proj1'',
     supabaseUrl = ''https://app.example''\<rparr>"

definition no_other :: other_handlers where
  "no_other a uid w = (Inr (200, []), w)"

definition gw_rejects :: gateway where
  "gw_rejects n rq = Rejects"

definition disconnect_request :: request_body where
  "disconnect_request = \<lparr>userId = Some ''u1'', action = Some ''disconnect''\<rparr>"


subsection \<open>What the partner API reports about a channel\<close>









section \<open>Pairing-code retrieval\<close>


subsection \<open>The get-QR function (attemptQrRetrieval)\<close>








subsection \<open>Observations on the connect action\<close>






subsection \<open>The endpoint-guessing variant of the connect action (attemptGetQR)\<close>

text \<open>
  This variant tries five QR endpoints; when none yields a code it tries three
  initialisation endpoints and, as soon as one answers ok, waits 3000 ms and calls
  itself again. Nothing counts the calls, so the function is modelled as a partial
  function: \<open>None\<close> is a call that never returns.
\<close>

definition qrEndpoints :: "string list" where
  "qrEndpoints = [''https://gate.whapi.cloud/screen'', ''https://gate.whapi.cloud/screenshot'',
     ''https://gate.whapi.cloud/qr'', ''https://gate.whapi.cloud/auth/qr'',
     ''https://gate.whapi.cloud/instance/qr'']"

definition initEndpoints :: "string list" where
  "initEndpoints = [''https://gate.whapi.cloud/start'', ''https://gate.whapi.cloud/init'',
     ''https://gate.whapi.cloud/instance/start'']"

fun first_truthy :: "body \<Rightarrow> string list \<Rightarrow> string option" where
  "first_truthy qrData [] = None"
| "first_truthy qrData [k] = field qrData k"
| "first_truthy qrData (k # ks) =
     (if truthy (field qrData k) then field qrData k else first_truthy qrData ks)"

definition qr_code_of :: "body \<Rightarrow> string option" where
  "qr_code_of qrData =
     first_truthy qrData [''qr'', ''screen'', ''image'', ''base64'', ''qrCode'', ''data'',
       ''screenshot'', ''qr_code'']"

fun try_qr_endpoints :: "gateway \<Rightarrow> string \<Rightarrow> string list \<Rightarrow> world \<Rightarrow> string option \<times> world" where
  "try_qr_endpoints gw token [] w = (None, w)"
| "try_qr_endpoints gw token (ep # eps) w =
     (case fetch gw (GateGet ep token) w of
        (Rejects, w1) \<Rightarrow> try_qr_endpoints gw token eps w1
      | (Response code b, w1) \<Rightarrow>
          if ok code
          then (case b of
                  None \<Rightarrow> try_qr_endpoints gw token eps w1
                | Some qrData \<Rightarrow>
                    if truthy (qr_code_of qrData)
                    then (Some (data_uri (interp (qr_code_of qrData))), w1)
                    else try_qr_endpoints gw token eps w1)
          else try_qr_endpoints gw token eps w1)"

fun first_init_ok :: "gateway \<Rightarrow> string \<Rightarrow> string list \<Rightarrow> world \<Rightarrow> bool \<times> world" where
  "first_init_ok gw token [] w = (False, w)"
| "first_init_ok gw token (ep # eps) w =
     (case fetch gw (GatePost ep token) w of
        (Rejects, w1) \<Rightarrow> first_init_ok gw token eps w1
      | (Response code b, w1) \<Rightarrow>
          if ok code then (True, w1) else first_init_ok gw token eps w1)"

datatype qr_result = QrSuccess string | QrUnavailable

partial_function (option) attemptGetQR ::
  "gateway \<Rightarrow> string \<Rightarrow> world \<Rightarrow> (qr_result \<times> world) option"
where
  "attemptGetQR gw token w =
     (case try_qr_endpoints gw token qrEndpoints w of
        (Some qrCode, w1) \<Rightarrow> Some (QrSuccess qrCode, w1)
      | (None, w1) \<Rightarrow>
          (case first_init_ok gw token initEndpoints w1 of
             (started, w2) \<Rightarrow>
               if started then attemptGetQR gw token (delay 3000 w2)
               else Some (QrUnavailable, w2)))"

subsection \<open>Example gateways and inputs for the connect action\<close>

definition gw_init_only :: gateway where
  "gw_init_only n rq =
     (case rq of
        GatePost ep token \<Rightarrow> Response 200 (Some (Obj []))
      | _ \<Rightarrow> Response 404 (Some (Text ''not found'')))"

definition gw_down :: gateway where
  "gw_down n rq = Response 503 (Some (Text ''unavailable''))"







section \<open>Properties of the message scheduler\<close>

subsection \<open>The loop over the recipient groups and one turn of the pass\<close>

lemma send_to_group_step:
  "send_to_group gw m p (w, s, f) g =
     (let r = gw (calls w) (send_request m p g) in
      (w\<lparr>message_history := message_history w @ attempt_rows m g r,
         log := log w @ attempt_events m p g r,
         calls := Suc (calls w)\<rparr>,
       s + (if succeeded r then 1 else 0), f + fail_count r))"
  by (cases "gw (calls w) (send_request m p g)" rule: succeeded.cases)
     (simp_all add: fetch_def insert_history_def attempt_events_def Let_def)

lemma send_loop:
  "foldl (send_to_group gw m p) (w, s, f) gs =
     (w\<lparr>message_history := message_history w @ loop_rows gw m p (calls w) gs,
        log := log w @ loop_events gw m p (calls w) gs,
        calls := calls w + length gs\<rparr>,
      s + length (filter succeeded (outcomes gw m p (calls w) gs)),
      f + sum_list (map fail_count (outcomes gw m p (calls w) gs)))"
proof (induction gs arbitrary: w s f)
  case Nil
  show ?case by simp
next
  case (Cons g gs)
  show ?case
    by (simp only: foldl_Cons send_to_group_step Let_def Cons.IH) (simp)
qed

lemma fetches_append: "fetches (xs @ ys) = fetches xs @ fetches ys"
  by (induction xs rule: fetches.induct) simp_all

lemma status_writes_append: "status_writes (xs @ ys) = status_writes xs @ status_writes ys"
  by (induction xs rule: status_writes.induct) simp_all

lemma fetches_InsertHistory: "fetches (map InsertHistory rs) = []"
  by (induction rs) simp_all

lemma status_writes_InsertHistory: "status_writes (map InsertHistory rs) = []"
  by (induction rs) simp_all

lemma fetches_loop_events:
  "fetches (loop_events gw m p c gs) = map (send_request m p) gs"
  by (induction gs arbitrary: c)
     (simp_all add: attempt_events_def fetches_append fetches_InsertHistory)

lemma status_writes_loop_events: "status_writes (loop_events gw m p c gs) = []"
  by (induction gs arbitrary: c)
     (simp_all add: attempt_events_def status_writes_append status_writes_InsertHistory)


lemma log_set_status: "log (set_status i st u w) = log w @ [SetScheduledStatus i st]"
  by (simp add: set_status_def)

lemma calls_set_status: "calls (set_status i st u w) = calls w"
  by (simp add: set_status_def)

lemma process_message_log:
  "log (process_message gw now w mp) = log w @ process_events gw (calls w) mp"
  by (simp add: process_message_def process_events_def connected_profile_def rollup_def
        send_loop log_set_status calls_set_status Let_def)

lemma process_message_calls:
  "calls (process_message gw now w mp) =
     calls w + (if connected_profile (snd mp) then length (group_ids (fst mp)) else 0)"
  by (simp add: process_message_def connected_profile_def send_loop calls_set_status Let_def)

lemma fail_count_pos: "0 < fail_count r \<longleftrightarrow> \<not> succeeded r"
  by (cases r rule: succeeded.cases) simp_all

lemma rollup_cases:
  "rollup outs =
     (if \<exists>r \<in> set outs. succeeded r
      then (if \<exists>r \<in> set outs. \<not> succeeded r then ''partial'' else ''sent'')
      else ''failed'')"
proof -
  have s: "0 < length (filter succeeded outs) \<longleftrightarrow> (\<exists>r \<in> set outs. succeeded r)"
    by (simp add: filter_empty_conv)
  have f: "0 < sum_list (map fail_count outs) \<longleftrightarrow> (\<exists>r \<in> set outs. \<not> succeeded r)"
    by (induction outs) (auto simp: fail_count_pos)
  show ?thesis
    unfolding rollup_def finalStatus_def s f by simp
qed

lemma scheduled_set_status:
  "scheduled_messages (set_status i st u w) =
     map (\<lambda>r. if msg_id r = i
               then r\<lparr>status := st,
                       msg_updated_at := (case u of None \<Rightarrow> msg_updated_at r | Some t \<Rightarrow> t)\<rparr>
               else r) (scheduled_messages w)"
  by (simp add: set_status_def)



lemma history_set_status: "message_history (set_status i st u w) = message_history w"
  by (simp add: set_status_def)

lemma process_message_history:
  "message_history (process_message gw now w mp) =
     message_history w @
       (if connected_profile (snd mp)
        then loop_rows gw (fst mp) (snd mp) (calls w) (group_ids (fst mp)) else [])"
  by (simp add: process_message_def connected_profile_def send_loop calls_set_status
        history_set_status Let_def)

lemma process_message_scheduled:
  "scheduled_messages (process_message gw now w mp) =
     map (\<lambda>r. if msg_id r = msg_id (fst mp)
               then r\<lparr>status := (if connected_profile (snd mp)
                                   then rollup (outcomes gw (fst mp) (snd mp) (calls w) (group_ids (fst mp)))
                                   else ''failed''),
                       msg_updated_at := now\<rparr>
               else r) (scheduled_messages w)"
  by (simp add: process_message_def connected_profile_def send_loop calls_set_status
        scheduled_set_status rollup_def Let_def comp_def cong: if_cong)

lemma pending_demo: "pendingMessages 100 demo_world = [(demo_message, demo_profile)]"
  by (simp add: pendingMessages_def due_rows_def demo_world_def demo_message_def)

lemma demo_connected: "connected_profile demo_profile"
  by (simp add: connected_profile_def demo_profile_def)

lemma demo_groups: "group_ids demo_message = [''g1'', ''g2'', ''g3'']"
  by (simp add: demo_message_def)

subsection \<open>Selection of the batch\<close>

lemma map_fst_due:
  "map fst (concat (map (\<lambda>m. case map_of ps (user_id m) of
                         None \<Rightarrow> []
                       | Some p \<Rightarrow> if status m = ''pending'' \<and> send_at m \<le> now then [(m, p)] else []) ms))
   = filter (\<lambda>m. map_of ps (user_id m) \<noteq> None \<and> status m = ''pending'' \<and> send_at m \<le> now) ms"
  by (induction ms) (auto split: option.splits)

lemma due_rows_subseq: "subseq (map fst (due_rows now w)) (scheduled_messages w)"
  unfolding due_rows_def map_fst_due by simp

lemma due_rows_sound:
  "mp \<in> set (due_rows now w) \<Longrightarrow>
     status (fst mp) = ''pending'' \<and> send_at (fst mp) \<le> now \<and>
     map_of (profiles w) (user_id (fst mp)) = Some (snd mp)"
  by (auto simp: due_rows_def split: option.splits if_splits)

lemma pending_subseq: "subseq (map fst (pendingMessages now w)) (scheduled_messages w)"
proof -
  have "subseq (take 10 (map fst (due_rows now w))) (map fst (due_rows now w))"
    by (metis append_take_drop_id prefix_def prefix_imp_subseq)
  then show ?thesis
    unfolding pendingMessages_def take_map using due_rows_subseq subseq_order.order_trans by blast
qed

lemma finalStatus_not_sending: "finalStatus s f \<noteq> ''sending''"
  by (simp add: finalStatus_def)

lemma status_writes_process_events:
  "sending_marks (process_events gw c mp) = [msg_id (fst mp)]"
  by (simp add: sending_marks_def process_events_def Let_def status_writes_append
        status_writes_loop_events rollup_def finalStatus_not_sending)

lemma sending_marks_append: "sending_marks (xs @ ys) = sending_marks xs @ sending_marks ys"
  by (simp add: sending_marks_def status_writes_append)

lemma process_batch_marks:
  "sending_marks (log (process_batch gw now rows w)) =
     sending_marks (log w) @ map (\<lambda>mp. msg_id (fst mp)) rows"
  unfolding process_batch_def
  by (induction rows arbitrary: w)
     (simp_all add: process_message_log sending_marks_append status_writes_process_events)

text \<open>
  Claim C4, as the code has it. A pass selects at most 10 rows, every one of them
  \<open>pending\<close> and due (\<open>send_at \<le> now\<close>). The query asks for no ordering: the batch is
  the first ten due rows in the store's own scan order (a subsequence of the table),
  and the pass marks them \<open>sending\<close> one after the other in exactly that order.
\<close>

theorem pending_batch_store_order:
  "length (pendingMessages now w) \<le> 10 \<and>
   (\<forall>mp \<in> set (pendingMessages now w).
      status (fst mp) = ''pending'' \<and> send_at (fst mp) \<le> now) \<and>
   subseq (map fst (pendingMessages now w)) (scheduled_messages w) \<and>
   sending_marks (log (snd (run_scheduler gw now w))) =
     sending_marks (log w) @ map (\<lambda>mp. msg_id (fst mp)) (pendingMessages now w)"
proof -
  have a: "length (pendingMessages now w) \<le> 10"
    by (simp add: pendingMessages_def)
  have b: "\<forall>mp \<in> set (pendingMessages now w).
      status (fst mp) = ''pending'' \<and> send_at (fst mp) \<le> now"
    using due_rows_sound in_set_takeD unfolding pendingMessages_def by metis
  have c: "sending_marks (log (snd (run_scheduler gw now w))) =
     sending_marks (log w) @ map (\<lambda>mp. msg_id (fst mp)) (pendingMessages now w)"
    by (simp add: run_scheduler_def Let_def process_batch_marks)
  from a b c pending_subseq show ?thesis by blast
qed

text \<open>Witness for C4: the table with one due message.\<close>

theorem pending_batch_store_order_witness:
  "length (pendingMessages 100 demo_world) \<le> 10 \<and>
   map (\<lambda>mp. status (fst mp)) (pendingMessages 100 demo_world) = [''pending''] \<and>
   sending_marks (log (snd (run_scheduler gw_accepts 100 demo_world))) = [''m1'']"
  using pending_batch_store_order [of 100 demo_world gw_accepts]
  by (simp add: pendingMessages_def due_rows_def demo_world_def demo_message_def sending_marks_def)

text \<open>
  Counterexample to C4 as stated (oldest due first): a table that holds the message
  due at 50 before the message due at 20. Both are selected, and the one due later is
  processed first.
\<close>

theorem pending_batch_not_sorted_counterexample:
  "map (\<lambda>mp. (msg_id (fst mp), send_at (fst mp))) (pendingMessages 100 backlog_world)
     = [(''m1'', 50), (''m2'', 20)] \<and>
   \<not> sorted (map (\<lambda>mp. send_at (fst mp)) (pendingMessages 100 backlog_world)) \<and>
   sending_marks (log (snd (run_scheduler gw_accepts 100 backlog_world))) = [''m1'', ''m2'']"
proof -
  have rows: "pendingMessages 100 backlog_world =
      [(demo_message, demo_profile), (demo_message\<lparr>msg_id := ''m2'', send_at := 20\<rparr>, demo_profile)]"
    by (simp add: pendingMessages_def due_rows_def backlog_world_def demo_message_def)
  have marks: "sending_marks (log (snd (run_scheduler gw_accepts 100 backlog_world))) = [''m1'', ''m2'']"
    by (simp add: run_scheduler_def Let_def process_batch_marks rows)
       (simp add: backlog_world_def sending_marks_def demo_message_def)
  show ?thesis
    unfolding rows using marks by (simp add: demo_message_def)
qed

subsection \<open>The claim write\<close>

text \<open>
  Claim C1, as the code has it. The first thing a pass does with a selected row is the
  write of \<open>sending\<close>, keyed by the id alone, before any \<open>fetch\<close>. Its result is not
  inspected: the events that follow depend on the selected row, the gateway and the
  call counter only, not on what the store holds. When the joined profile is connected
  the pass sends to every recipient group, whatever the stored status was; otherwise it
  writes \<open>failed\<close> and sends nothing.
\<close>

theorem claim_write_unconditional:
  "\<exists>evs. log (process_message gw now w (m, p)) =
            log w @ SetScheduledStatus (msg_id m) ''sending'' # evs \<and>
     (connected_profile p \<longrightarrow> fetches evs = map (send_request m p) (group_ids m)) \<and>
     (\<not> connected_profile p \<longrightarrow> evs = [SetScheduledStatus (msg_id m) ''failed'']) \<and>
     (\<forall>w'. calls w' = calls w \<longrightarrow>
        log (process_message gw now w' (m, p)) =
          log w' @ SetScheduledStatus (msg_id m) ''sending'' # evs)"
proof -
  let ?evs = "tl (process_events gw (calls w) (m, p))"
  have e: "process_events gw (calls w) (m, p) = SetScheduledStatus (msg_id m) ''sending'' # ?evs"
    by (simp add: process_events_def Let_def)
  have l: "log (process_message gw now w (m, p)) =
            log w @ SetScheduledStatus (msg_id m) ''sending'' # ?evs"
    using e process_message_log [of gw now w "(m, p)"] by simp
  have c: "connected_profile p \<longrightarrow> fetches ?evs = map (send_request m p) (group_ids m)"
    by (simp add: process_events_def Let_def fetches_append fetches_loop_events)
  have d: "\<not> connected_profile p \<longrightarrow> ?evs = [SetScheduledStatus (msg_id m) ''failed'']"
    by (simp add: process_events_def Let_def)
  have i: "\<forall>w'. calls w' = calls w \<longrightarrow>
        log (process_message gw now w' (m, p)) =
          log w' @ SetScheduledStatus (msg_id m) ''sending'' # ?evs"
  proof (intro allI impI)
    fix w' :: world
    assume "calls w' = calls w"
    then show "log (process_message gw now w' (m, p)) =
          log w' @ SetScheduledStatus (msg_id m) ''sending'' # ?evs"
      using e process_message_log [of gw now w' "(m, p)"] by simp
  qed
  from l c d i show ?thesis by blast
qed

text \<open>Witness for C1: the stored row is already \<open>sending\<close>, and the pass still sends to
  the three groups.\<close>

theorem claim_write_unconditional_witness:
  "connected_profile demo_profile \<and>
   map status (scheduled_messages claimed_world) = [''sending''] \<and>
   fetches (log (process_message gw_accepts 100 claimed_world (demo_message, demo_profile))) =
     map (send_request demo_message demo_profile) [''g1'', ''g2'', ''g3'']"
proof -
  obtain evs where
    l: "log (process_message gw_accepts 100 claimed_world (demo_message, demo_profile)) =
          log claimed_world @ SetScheduledStatus (msg_id demo_message) ''sending'' # evs"
    and f: "connected_profile demo_profile \<longrightarrow>
          fetches evs = map (send_request demo_message demo_profile) (group_ids demo_message)"
    using claim_write_unconditional [of gw_accepts 100 claimed_world demo_message demo_profile]
    by blast
  have s: "map status (scheduled_messages claimed_world) = [''sending'']"
    by (simp add: claimed_world_def demo_world_def)
  have e: "log claimed_world = []"
    by (simp add: claimed_world_def demo_world_def)
  show ?thesis
    using f demo_connected s by (simp add: l e demo_groups)
qed

text \<open>
  Counterexample to C1 as stated (a pass whose claim finds the row already claimed
  skips it): two passes select the same pending row before either writes. The first
  pass runs to the end and leaves the row \<open>sent\<close>; the loop of the second pass, run on
  the same selected rows, sends to the three groups again.
\<close>

theorem second_pass_sends_again_counterexample:
  "pendingMessages 100 demo_world = [(demo_message, demo_profile)] \<and>
   map status (scheduled_messages first_pass) = [''sent''] \<and>
   length (fetches (log first_pass)) = 3 \<and>
   length (fetches (log second_pass)) = 6"
proof -
  have o: "\<And>c. outcomes gw_accepts demo_message demo_profile c (group_ids demo_message) =
      replicate 3 (Response 200 (Some (Obj [(''id'', ''wamid'')])))"
    by (simp add: demo_groups gw_accepts_def numeral_3_eq_3)
  have r: "rollup (replicate 3 (Response 200 (Some (Obj [(''id'', ''wamid'')])))) = ''sent''"
    by (simp add: rollup_cases ok_def)
  have s1: "map status (scheduled_messages first_pass) = [''sent'']"
    by (simp add: first_pass_def pending_demo process_batch_def process_message_scheduled
          demo_connected o r cong: if_cong)
       (simp add: demo_world_def demo_message_def)
  have f1: "fetches (log first_pass) = map (send_request demo_message demo_profile) [''g1'', ''g2'', ''g3'']"
    by (simp add: first_pass_def pending_demo process_batch_def process_message_log
          process_events_def demo_connected fetches_append fetches_loop_events)
       (simp add: demo_world_def demo_groups)
  have f2: "fetches (log second_pass) = fetches (log first_pass) @
       map (send_request demo_message demo_profile) [''g1'', ''g2'', ''g3'']"
    by (simp add: second_pass_def pending_demo process_batch_def process_message_log
          process_events_def demo_connected fetches_append fetches_loop_events)
       (simp add: demo_groups)
  show ?thesis
    using pending_demo s1 by (simp add: f2 f1)
qed

subsection \<open>The aggregate status\<close>




subsection \<open>One delivery record per attempt\<close>

text \<open>
  Claim C2 at the failing input: three recipients, the \<open>fetch\<close> for the second one
  raises. All three sends are attempted and the final status is \<open>partial\<close>, but the
  handler of the raised error only counts the failure: \<open>message_history\<close> ends with two
  rows, both \<open>sent\<close>, and none for the second recipient.
\<close>

theorem raised_send_leaves_no_record:
  "outcomes gw_second_rejects demo_message demo_profile 0 (group_ids demo_message) =
     [Response 200 (Some (Obj [(''id'', ''wamid'')])), Rejects,
      Response 200 (Some (Obj [(''id'', ''wamid'')]))] \<and>
   length (fetches (log (snd (run_scheduler gw_second_rejects 100 demo_world)))) = 3 \<and>
   map (\<lambda>h. (h_group_id h, h_status h))
       (message_history (snd (run_scheduler gw_second_rejects 100 demo_world))) =
     [(''g1'', ''sent''), (''g3'', ''sent'')] \<and>
   map status (scheduled_messages (snd (run_scheduler gw_second_rejects 100 demo_world))) =
     [''partial'']"
proof -
  have c: "calls demo_world = 0" by (simp add: demo_world_def)
  have o: "outcomes gw_second_rejects demo_message demo_profile 0 (group_ids demo_message) =
     [Response 200 (Some (Obj [(''id'', ''wamid'')])), Rejects,
      Response 200 (Some (Obj [(''id'', ''wamid'')]))]"
    by (simp add: demo_groups gw_second_rejects_def)
  have run: "snd (run_scheduler gw_second_rejects 100 demo_world) =
      process_message gw_second_rejects 100 demo_world (demo_message, demo_profile)"
    by (simp add: run_scheduler_def pending_demo process_batch_def)
  have f: "fetches (log (process_message gw_second_rejects 100 demo_world (demo_message, demo_profile)))
      = map (send_request demo_message demo_profile) [''g1'', ''g2'', ''g3'']"
    by (simp add: process_message_log process_events_def demo_connected
          fetches_append fetches_loop_events)
       (simp add: demo_world_def demo_groups)
  have h: "message_history (process_message gw_second_rejects 100 demo_world (demo_message, demo_profile))
      = [sent_row demo_message ''g1'' (Obj [(''id'', ''wamid'')]),
         sent_row demo_message ''g3'' (Obj [(''id'', ''wamid'')])]"
    by (simp add: process_message_history demo_connected demo_groups c gw_second_rejects_def ok_def)
       (simp add: demo_world_def)
  have s: "map status (scheduled_messages (process_message gw_second_rejects 100 demo_world
      (demo_message, demo_profile))) = [''partial'']"
    by (simp add: process_message_scheduled demo_connected c o rollup_cases ok_def cong: if_cong)
       (simp add: demo_world_def demo_message_def)
  show ?thesis
    unfolding run using o f s by (simp add: h sent_row_def)
qed

section \<open>Properties of the connection functions\<close>

subsection \<open>The status vocabulary\<close>

text \<open>
  Claim C5, as the code has it. The webhook receiver (whapi-webhook-simple) and the
  polling path (handleStatus of whapi-simple) map a remote status by the same function:
  \<open>authenticated\<close> and \<open>ready\<close> to \<open>connected\<close>, \<open>qr\<close> and \<open>unauthorized\<close> to the
  pairing-needed state \<open>unauthorized\<close>, anything else (also an absent status) to
  \<open>disconnected\<close>; the polling path reports connected exactly when the mapped status is
  \<open>connected\<close>. The remote status \<open>active\<close> counts as connected only in
  whapi-check-status, whose test is \<open>active\<close> or \<open>connected\<close>.
\<close>

theorem status_mapping_shared:
  "webhook_newStatus st = handleStatus_newStatus st \<and>
   (st = Some ''authenticated'' \<or> st = Some ''ready'' \<longrightarrow> webhook_newStatus st = ''connected'') \<and>
   (st = Some ''qr'' \<or> st = Some ''unauthorized'' \<longrightarrow> webhook_newStatus st = ''unauthorized'') \<and>
   (st \<noteq> Some ''authenticated'' \<and> st \<noteq> Some ''ready'' \<and> st \<noteq> Some ''qr'' \<and>
    st \<noteq> Some ''unauthorized'' \<longrightarrow> webhook_newStatus st = ''disconnected'') \<and>
   (handleStatus_connected st \<longleftrightarrow> webhook_newStatus st = ''connected'') \<and>
   (isConnected st \<longleftrightarrow> st = Some ''active'' \<or> st = Some ''connected'')"
  by (simp add: webhook_newStatus_def handleStatus_newStatus_def handleStatus_connected_def
        isConnected_def)

text \<open>Witness for C5: the statuses \<open>ready\<close>, \<open>qr\<close>, \<open>loading\<close> and \<open>active\<close>.\<close>

theorem status_mapping_shared_witness:
  "webhook_newStatus (Some ''ready'') = handleStatus_newStatus (Some ''ready'') \<and>
   webhook_newStatus (Some ''ready'') = ''connected'' \<and>
   webhook_newStatus (Some ''qr'') = ''unauthorized'' \<and>
   webhook_newStatus (Some ''loading'') = ''disconnected'' \<and>
   isConnected (Some ''active'')"
  using status_mapping_shared [of "Some ''ready''"] status_mapping_shared [of "Some ''qr''"]
    status_mapping_shared [of "Some ''loading''"] status_mapping_shared [of "Some ''active''"]
  by (simp add: handleStatus_newStatus_def handleStatus_connected_def)

text \<open>
  Counterexample to C5 as stated (one function on all three paths, with \<open>active\<close>
  mapped to connected): the webhook and handleStatus map \<open>active\<close> to \<open>disconnected\<close>,
  and the status check does not count \<open>authenticated\<close> or \<open>ready\<close> as connected.
\<close>

theorem active_not_connected_counterexample:
  "webhook_newStatus (Some ''active'') = ''disconnected'' \<and>
   handleStatus_newStatus (Some ''active'') = ''disconnected'' \<and>
   \<not> handleStatus_connected (Some ''active'') \<and>
   \<not> isConnected (Some ''authenticated'') \<and>
   \<not> isConnected (Some ''ready'')"
  by (simp add: webhook_newStatus_def handleStatus_newStatus_def handleStatus_connected_def
        isConnected_def)

subsection \<open>Writes to the connection record\<close>

lemma map_of_update_rows:
  "map_of (map (\<lambda>kp. if P kp then (fst kp, f (snd kp)) else kp) rows) uid =
     map_option (\<lambda>p. if P (uid, p) then f p else p) (map_of rows uid)"
  by (induction rows) auto

lemma map_of_update_profile:
  "map_of (profiles (update_profile uid f w)) k =
     (if k = uid then map_option f (map_of (profiles w) k) else map_of (profiles w) k)"
proof -
  have "map_of (profiles (update_profile uid f w)) k =
      map_option (\<lambda>p. if fst (k, p) = uid then f p else p) (map_of (profiles w) k)"
    unfolding update_profile_def
    using map_of_update_rows [of "\<lambda>kp. fst kp = uid" f "profiles w" k] by simp
  then show ?thesis by (cases "map_of (profiles w) k") auto
qed

lemma map_of_update_by_instance:
  "map_of (profiles (update_profiles_by_instance i f w)) k =
     map_option (\<lambda>p. if instance_id p = Some i then f p else p) (map_of (profiles w) k)"
  unfolding update_profiles_by_instance_def
  using map_of_update_rows [of "\<lambda>kp. instance_id (snd kp) = Some i" f "profiles w" k] by simp

lemma profiles_fetch: "profiles (snd (fetch gw rq w)) = profiles w"
  by (simp add: fetch_def)

lemma webhook_simple_write:
  assumes "wh_event wh = Some ''channel''" and "data_field wh ''id'' = Some i" and "i \<noteq> []"
    and "map_of (profiles w) uid = Some p" and "instance_id p = Some i"
  shows "map_of (profiles (snd (webhook_simple now (Some wh) w))) uid =
           Some (apply_write (WebhookWrite, data_field wh ''status'', now) p)"
proof -
  have "(uid, p) \<in> set (profiles w)" using assms(4) by (rule map_of_SomeD)
  then have "filter (\<lambda>kp. instance_id (snd kp) = Some i) (profiles w) \<noteq> []"
    using assms(5) by (auto simp: filter_empty_conv intro!: bexI [of _ "(uid, p)"])
  then show ?thesis
    using assms
    by (simp add: webhook_simple_def map_of_update_by_instance apply_write_def carried_def stamp_def)
qed

lemma handleStatus_write:
  assumes "map_of (profiles w) uid = Some p" and "truthy (whapi_token p)"
    and "gw (calls w) (Health (bearer (whapi_token p))) = Response code (Some health)"
    and "ok code"
    and "handleStatus_newStatus (field health ''status'') \<noteq> instance_status p"
  shows "map_of (profiles (snd (handleStatus gw now uid w))) uid =
           Some (apply_write (PollWrite, field health ''status'', now) p)"
  using assms
  by (simp add: handleStatus_def fetch_def Let_def map_of_update_profile apply_write_def
        carried_def stamp_def)







subsection \<open>Disconnect\<close>

lemma map_of_ensure_profile:
  "map_of (profiles (ensure_profile now uid w)) uid =
     Some (case map_of (profiles w) uid of None \<Rightarrow> new_profile now | Some p \<Rightarrow> p)"
  by (cases "map_of (profiles w) uid") (simp_all add: ensure_profile_def map_add_def)

lemma ensure_profile_existing:
  "map_of (profiles w) uid = Some p \<Longrightarrow> ensure_profile now uid w = w"
  by (simp add: ensure_profile_def)

lemma handleDisconnect_result:
  "fst (handleDisconnect gw now pt uid w) =
     Inr (200, [(''success'', B True), (''message'', S ''WhatsApp disconnected'')])"
  by (simp add: handleDisconnect_def Let_def)

lemma handleDisconnect_profile:
  "map_of (profiles (snd (handleDisconnect gw now pt uid w))) uid =
     map_option (reset_instance now) (map_of (profiles w) uid)"
  by (cases "map_of (profiles w) uid")
     (simp_all add: handleDisconnect_def Let_def map_of_update_profile profiles_fetch)

lemma serve_disconnect:
  assumes "truthy (userId rb)" and "action rb = Some ''disconnect''"
  shows "serve gw now e other (Some rb) w =
     ((200, [(''success'', B True), (''message'', S ''WhatsApp disconnected'')]),
      snd (handleDisconnect gw now (partnerToken e) (bearer (userId rb))
             (ensure_profile now (bearer (userId rb)) w)))"
proof -
  have g: "\<not> trial_gate now (map_of (profiles w) (bearer (userId rb))) (action rb)"
    using assms(2) by (simp add: trial_gate_def basic_action_def)
  obtain w' where h: "handleDisconnect gw now (partnerToken e) (bearer (userId rb))
             (ensure_profile now (bearer (userId rb)) w) =
      (Inr (200, [(''success'', B True), (''message'', S ''WhatsApp disconnected'')]), w')"
    using handleDisconnect_result
    by (metis prod.collapse)
  show ?thesis
    using assms g by (simp add: serve_def Let_def dispatch_def h)
qed

text \<open>
  Claim C8. For every disconnect request with a user id, whatever the gateway does
  with the deletion call (it may reject, or answer with any status), the response is
  the success response and the user's row has \<open>instance_id\<close> and \<open>whapi_token\<close> null
  and \<open>instance_status\<close> \<open>disconnected\<close>. A row that existed keeps its other columns; a
  row that did not exist is the one the entry point creates first.
\<close>

theorem disconnect_always_resets:
  assumes "truthy (userId rb)" and "action rb = Some ''disconnect''"
  shows "fst (serve gw now e other (Some rb) w) =
           (200, [(''success'', B True), (''message'', S ''WhatsApp disconnected'')]) \<and>
         (\<exists>p. map_of (profiles (snd (serve gw now e other (Some rb) w))) (bearer (userId rb)) = Some p \<and>
              instance_id p = None \<and> whapi_token p = None \<and>
              instance_status p = ''disconnected'') \<and>
         (\<forall>p. map_of (profiles w) (bearer (userId rb)) = Some p \<longrightarrow>
              map_of (profiles (snd (serve gw now e other (Some rb) w))) (bearer (userId rb)) =
                Some (reset_instance now p))"
proof -
  let ?uid = "bearer (userId rb)"
  let ?q = "case map_of (profiles w) ?uid of None \<Rightarrow> new_profile now | Some p \<Rightarrow> p"
  have s: "map_of (profiles (snd (serve gw now e other (Some rb) w))) ?uid =
      Some (reset_instance now ?q)"
    by (simp add: serve_disconnect [OF assms] handleDisconnect_profile map_of_ensure_profile)
  have r: "instance_id (reset_instance now ?q) = None \<and> whapi_token (reset_instance now ?q) = None \<and>
      instance_status (reset_instance now ?q) = ''disconnected''"
    by (simp add: reset_instance_def)
  have f: "fst (serve gw now e other (Some rb) w) =
           (200, [(''success'', B True), (''message'', S ''WhatsApp disconnected'')])"
    by (simp add: serve_disconnect [OF assms])
  have a: "\<forall>p. map_of (profiles w) ?uid = Some p \<longrightarrow>
              map_of (profiles (snd (serve gw now e other (Some rb) w))) ?uid =
                Some (reset_instance now p)"
    using s by simp
  from f s r a show ?thesis by blast
qed

text \<open>Witness for C8: the deletion call is made and raises; the row is reset all the
  same.\<close>

theorem disconnect_always_resets_witness:
  "truthy (userId disconnect_request) \<and>
   action disconnect_request = Some ''disconnect'' \<and>
   fetches (log (snd (serve gw_rejects 100 demo_env no_other (Some disconnect_request) demo_world)))
     = [DeleteChannel ''partner'' ''chan1''] \<and>
   fst (serve gw_rejects 100 demo_env no_other (Some disconnect_request) demo_world) =
     (200, [(''success'', B True), (''message'', S ''WhatsApp disconnected'')]) \<and>
   map_of (profiles (snd (serve gw_rejects 100 demo_env no_other (Some disconnect_request) demo_world)))
     ''u1'' = Some (reset_instance 100 demo_profile)"
proof -
  have t: "truthy (userId disconnect_request)" and a: "action disconnect_request = Some ''disconnect''"
    and u: "bearer (userId disconnect_request) = ''u1''"
    by (simp_all add: disconnect_request_def)
  have m: "map_of (profiles demo_world) ''u1'' = Some demo_profile"
    by (simp add: demo_world_def)
  have l: "fetches (log (snd (serve gw_rejects 100 demo_env no_other (Some disconnect_request) demo_world)))
     = [DeleteChannel ''partner'' ''chan1'']"
    unfolding serve_disconnect [OF t a] u ensure_profile_existing [OF m]
    by (simp add: handleDisconnect_def m Let_def fetch_def update_profile_def)
       (simp add: demo_profile_def demo_env_def demo_world_def)
  show ?thesis
    using disconnect_always_resets [OF t a, of gw_rejects 100 demo_env no_other demo_world]
      t a l m by (simp add: u)
qed

subsection \<open>The trial gate\<close>










subsection \<open>Self-healing of the status check\<close>







section \<open>Properties of pairing-code retrieval\<close>

subsection \<open>The retry budget of attemptQrRetrieval\<close>








subsection \<open>The polling loop of the connect action\<close>










subsection \<open>attemptGetQR may not return\<close>

text \<open>On a gateway that never serves a code but answers every initialisation call
  with ok, the recursion never ends; on a gateway that refuses everything it returns
  after the eight calls.\<close>

lemma try_qr_endpoints_init_only:
  "fst (try_qr_endpoints gw_init_only token eps w) = None"
  by (induction eps arbitrary: w) (simp_all add: fetch_def gw_init_only_def ok_def)

lemma first_init_ok_init_only:
  "eps \<noteq> [] \<Longrightarrow> fst (first_init_ok gw_init_only token eps w) = True"
  by (cases eps) (simp_all add: fetch_def gw_init_only_def ok_def)

lemma attemptGetQR_Some_not_init_only:
  assumes "attemptGetQR gw token w = Some y"
  shows "gw \<noteq> gw_init_only"
proof (rule attemptGetQR.raw_induct [where P = "\<lambda>gw token w y. gw \<noteq> gw_init_only", OF _ assms])
  fix rec :: "gateway \<Rightarrow> string \<Rightarrow> world \<Rightarrow> (qr_result \<times> world) option"
  fix gw token w y
  assume IH: "\<And>gw token w y. rec gw token w = Some y \<Longrightarrow> gw \<noteq> gw_init_only"
    and eq: "(case try_qr_endpoints gw token qrEndpoints w of
               (None, w1) \<Rightarrow>
                 (case first_init_ok gw token initEndpoints w1 of
                    (started, w2) \<Rightarrow>
                      if started then rec gw token (delay 3000 w2)
                      else Some (QrUnavailable, w2))
             | (Some qrCode, w1) \<Rightarrow> Some (QrSuccess qrCode, w1)) = Some y"
  show "gw \<noteq> gw_init_only"
  proof
    assume g: "gw = gw_init_only"
    obtain c w1 where t: "try_qr_endpoints gw token qrEndpoints w = (c, w1)"
      by (cases "try_qr_endpoints gw token qrEndpoints w")
    have c: "c = None" using try_qr_endpoints_init_only [of token qrEndpoints w] t g by simp
    obtain b w2 where i: "first_init_ok gw token initEndpoints w1 = (b, w2)"
      by (cases "first_init_ok gw token initEndpoints w1")
    have b: "b = True"
      using first_init_ok_init_only [of initEndpoints token w1] i g by (simp add: initEndpoints_def)
    have "rec gw token (delay 3000 w2) = Some y"
      using eq t c i b by simp
    from IH [OF this] g show False by simp
  qed
qed

lemma attemptGetQR_may_not_return: "attemptGetQR gw_init_only token w = None"
  using attemptGetQR_Some_not_init_only [of gw_init_only token w] by (cases "attemptGetQR gw_init_only token w") auto

lemma attemptGetQR_returns_when_down:
  "\<exists>w'. attemptGetQR gw_down token w = Some (QrUnavailable, w')"
proof -
  have q: "fst (try_qr_endpoints gw_down token eps w) = None" for eps w
    by (induction eps arbitrary: w) (simp_all add: fetch_def gw_down_def ok_def)
  have i: "fst (first_init_ok gw_down token eps w) = False" for eps w
    by (induction eps arbitrary: w) (simp_all add: fetch_def gw_down_def ok_def)
  obtain w1 where t: "try_qr_endpoints gw_down token qrEndpoints w = (None, w1)"
    using q [of qrEndpoints w] by (cases "try_qr_endpoints gw_down token qrEndpoints w") simp
  obtain w2 where f: "first_init_ok gw_down token initEndpoints w1 = (False, w2)"
    using i [of initEndpoints w1] by (cases "first_init_ok gw_down token initEndpoints w1") simp
  have "attemptGetQR gw_down token w = Some (QrUnavailable, w2)"
    by (subst attemptGetQR.simps) (simp add: t f)
  then show ?thesis by (rule exI)
qed

subsection \<open>Connect with no existing channel\<close>








end
